theory Spec2Isabelle
  imports Main "HOL-Library.Sublist"
begin

section \<open>Syntax trees, the symbol oracle and tokens\<close>

text \<open>
  The annotator of \<^verbatim>\<open>src/analyze_code.js\<close> reads a TypeScript syntax tree and asks the
  type checker for symbols. Both are supplied from outside, so they are parameters here.
  A node is identified by the file it belongs to and its position in that file's tree: the
  list of child indices from the node up to the root (innermost first). The parent pointer
  \<^verbatim>\<open>node.parent\<close> is then the tail of the position and \<^verbatim>\<open>node.getSourceFile()\<close> the
  empty position, so every walk along parent pointers is finite, as it is in a parsed file.
\<close>

datatype SyntaxKind =
    Identifier | StringLiteral
  | ImportDeclaration | ExportDeclaration | ImportEqualsDeclaration
  | NamespaceImport | NamedImports | NamedExports
  | Parameter
  | SourceFile | Block | ModuleBlock | CaseClause | DefaultClause
  | OtherKind

type_synonym node = "string \<times> nat list"

type_synonym symbol = nat

datatype tree = Tree "tree list"

text \<open>
  Failures of the JavaScript are values: \<open>TypeError\<close> is a property read on
  \<^verbatim>\<open>undefined\<close>, \<open>RangeError\<close> is the engine's "Maximum call stack size exceeded" when
  the recursion of \<open>idFor\<close> goes deeper than the stack allows.
\<close>

datatype error = TypeError | RangeError

text \<open>
  The result of \<^verbatim>\<open>parse\<close>: the file name and the source text, the shape of the source
  file's tree, the properties of the nodes read by the annotator, and the answers of the
  type checker. A property that is \<^verbatim>\<open>undefined\<close> on a node is \<open>None\<close>.
  \<open>escapeHtml\<close> comes from \<^verbatim>\<open>./utils\<close>, which is not part of the sources: it is a
  parameter, and so is what it does when applied to \<^verbatim>\<open>undefined\<close>.
\<close>

record parsed =
  pathname :: string
  sourceText :: "string \<Rightarrow> string"
  shape :: tree
  kind :: "node \<Rightarrow> SyntaxKind"
  name :: "node \<Rightarrow> node option"
  propertyName :: "node \<Rightarrow> node option"
  moduleSpecifier :: "node \<Rightarrow> node option"
  moduleReference :: "node \<Rightarrow> node option"
  expression :: "node \<Rightarrow> node option"
  text_of :: "node \<Rightarrow> string option"
  getStart :: "node \<Rightarrow> nat"
  getEnd :: "node \<Rightarrow> nat"
  getSymbolAtLocation :: "node \<Rightarrow> symbol option"
  valueDeclaration :: "symbol \<Rightarrow> node option"
  declarations :: "symbol \<Rightarrow> node list option"
  exports :: "symbol \<Rightarrow> symbol list option"
  symbolName :: "symbol \<Rightarrow> string"
  escapeHtml :: "string \<Rightarrow> string"
  escapeHtmlUndefined :: "error + string"

text \<open>
  The process-wide state: the cache of \<open>idFor\<close> and what was written with
  \<^verbatim>\<open>console.log\<close> (the symbols logged, oldest first).
\<close>

record globals =
  idCache :: "node \<rightharpoonup> string"
  console :: "symbol list"

record token =
  t_start :: nat
  t_safe :: bool
  t_content :: string

record replacement =
  r_start :: nat
  r_end :: nat
  r_with :: "token list"

datatype content = Str string | Tok token | Toks "token list"

text \<open>
  Modelled from the spec: \<^verbatim>\<open>safe\<close> and \<^verbatim>\<open>unsafe\<close> of \<^verbatim>\<open>./replacements\<close> are not
  part of the sources. The spec's token is an offset, a flag "already rendered" and a
  content; \<open>safe\<close> builds a rendered token and \<open>unsafe\<close> one that is still to be escaped.
\<close>

definition safe :: "nat \<Rightarrow> string \<Rightarrow> token" where
  "safe s c = \<lparr>t_start = s, t_safe = True, t_content = c\<rparr>"

definition unsafe :: "nat \<Rightarrow> string \<Rightarrow> token" where
  "unsafe s c = \<lparr>t_start = s, t_safe = False, t_content = c\<rparr>"

section \<open>Helpers of the JavaScript\<close>

definition parent :: "node \<Rightarrow> node option" where
  "parent n = (case snd n of [] \<Rightarrow> None | i # p \<Rightarrow> Some (fst n, p))"

definition getSourceFile :: "node \<Rightarrow> node" where
  "getSourceFile n = (fst n, [])"

definition fileName :: "node \<Rightarrow> string" where
  "fileName n = fst n"

text \<open>\<^verbatim>\<open>String.prototype.substring\<close>: the two indices are swapped when out of order.\<close>

definition substring :: "string \<Rightarrow> nat \<Rightarrow> nat \<Rightarrow> string" where
  "substring s a b = take (max a b - min a b) (drop (min a b) s)"

definition getText :: "parsed \<Rightarrow> node \<Rightarrow> string" where
  "getText P n = substring (sourceText P (fileName n)) (getStart P n) (getEnd P n)"

text \<open>A value in a template literal: \<^verbatim>\<open>undefined\<close> is rendered as the word.\<close>

definition toStr :: "string option \<Rightarrow> string" where
  "toStr v = (case v of None \<Rightarrow> ''undefined'' | Some s \<Rightarrow> s)"

function showNat :: "nat \<Rightarrow> string" where
  "showNat n =
     (if n < 10 then [''0123456789'' ! n]
      else showNat (n div 10) @ [''0123456789'' ! (n mod 10)])"
  by pat_completeness auto
termination
  by (relation "measure id") auto

definition startsWithLib :: "string \<Rightarrow> bool" where
  "startsWithLib f = (take 8 f = ''/@ts:lib'')"

definition inLib :: "node \<Rightarrow> bool" where
  "inLib d = startsWithLib (fileName (getSourceFile d))"

definition isBoundary :: "parsed \<Rightarrow> node \<Rightarrow> bool" where
  "isBoundary P n =
     (kind P n = SourceFile \<or> kind P n = Block \<or> kind P n = ModuleBlock
      \<or> kind P n = CaseClause \<or> kind P n = DefaultClause)"

text \<open>
  \<^verbatim>\<open>getStatement\<close>: climb while there is a parent and the parent is not a source file, a
  block, a module block or a case or default clause.
\<close>

fun statementPos :: "parsed \<Rightarrow> string \<Rightarrow> nat list \<Rightarrow> nat list" where
  "statementPos P f [] = []"
| "statementPos P f (i # p) = (if isBoundary P (f, p) then i # p else statementPos P f p)"

definition getStatement :: "parsed \<Rightarrow> node \<Rightarrow> node" where
  "getStatement P n = (fst n, statementPos P (fst n) (snd n))"

text \<open>The inner function \<^verbatim>\<open>check\<close> of \<open>idFor\<close>: the nearest parameter at or above a node.\<close>

fun checkPos :: "parsed \<Rightarrow> string \<Rightarrow> nat list \<Rightarrow> nat list option" where
  "checkPos P f [] = (if kind P (f, []) = Parameter then Some [] else None)"
| "checkPos P f (i # p) =
     (if kind P (f, i # p) = Parameter then Some (i # p) else checkPos P f p)"

definition check :: "parsed \<Rightarrow> node \<Rightarrow> node option" where
  "check P n = map_option (Pair (fst n)) (checkPos P (fst n) (snd n))"

definition embed :: "nat \<Rightarrow> content \<Rightarrow> token list" where
  "embed s c = (case c of Toks ts \<Rightarrow> ts | Str x \<Rightarrow> [unsafe s x] | Tok t \<Rightarrow> [t])"

definition createDefinition :: "parsed \<Rightarrow> nat \<Rightarrow> string \<Rightarrow> content \<Rightarrow> nat \<Rightarrow> token list" where
  \<open>createDefinition P s ident c len =
     [safe s (''<span class="definition" id="'' @ escapeHtml P ident @ ''">'')]
     @ embed s c
     @ [safe (s + len) ''</span>'']\<close>

definition createRef :: "parsed \<Rightarrow> nat \<Rightarrow> string \<Rightarrow> content \<Rightarrow> nat \<Rightarrow> token list" where
  \<open>createRef P s href c len =
     [safe s (''<a class="ref" href="'' @ escapeHtml P href @ ''">'')]
     @ embed s c
     @ [safe (s + len) ''</a>'']\<close>

definition getRemoteLink :: "parsed \<Rightarrow> node \<Rightarrow> node \<Rightarrow> error + string" where
  "getRemoteLink P n statement =
     (case moduleSpecifier P statement of
        None \<Rightarrow> Inl TypeError
      | Some spec \<Rightarrow>
         (case parent n of
            None \<Rightarrow> Inl TypeError
          | Some p \<Rightarrow>
             (case propertyName P p of
                Some pn \<Rightarrow> Inr (toStr (text_of P spec) @ ''#'' @ toStr (text_of P pn))
              | None \<Rightarrow>
                 (case parent p of
                    None \<Rightarrow> Inl TypeError
                  | Some pp \<Rightarrow>
                     if kind P pp = NamedImports \<or> kind P pp = NamedExports
                     then (case name P p of
                             None \<Rightarrow> Inl TypeError
                           | Some nm \<Rightarrow>
                               Inr (toStr (text_of P spec) @ ''#'' @ toStr (text_of P nm)))
                     else Inr (toStr (text_of P spec) @ ''#'' @ ''default'')))))"

section \<open>The identity allocator\<close>

text \<open>
  \<^verbatim>\<open>typeChecker.getSymbolAtLocation\<close> applied to a property that may be missing: the
  checker answers \<^verbatim>\<open>undefined\<close> for \<^verbatim>\<open>undefined\<close>.
\<close>

definition symbolAt :: "parsed \<Rightarrow> node option \<Rightarrow> symbol option" where
  "symbolAt P n = (case n of None \<Rightarrow> None | Some m \<Rightarrow> getSymbolAtLocation P m)"

definition resolvesTo :: "parsed \<Rightarrow> symbol option \<Rightarrow> node \<Rightarrow> bool" where
  "resolvesTo P s decl =
     (symbolAt P (propertyName P decl) = s \<or> symbolAt P (name P decl) = s)"

text \<open>The \<^verbatim>\<open>find\<close> over the module's exports; reading the declarations of an export fails
  when it has none.\<close>

fun findExport :: "parsed \<Rightarrow> symbol option \<Rightarrow> symbol list \<Rightarrow> error + symbol option" where
  "findExport P s [] = Inr None"
| "findExport P s (e # es) =
     (case declarations P e of
        None \<Rightarrow> Inl TypeError
      | Some ds \<Rightarrow> if list_ex (resolvesTo P s) ds then Inr (Some e) else findExport P s es)"

text \<open>The test of that \<^verbatim>\<open>find\<close> alone: some declaration of the export resolves, by its
  rename source or by its name, to the symbol.\<close>

definition exportsSymbol :: "parsed \<Rightarrow> symbol option \<Rightarrow> symbol \<Rightarrow> bool" where
  "exportsSymbol P s e =
     (case declarations P e of None \<Rightarrow> False | Some ds \<Rightarrow> list_ex (resolvesTo P s) ds)"

definition exportEntry :: "parsed \<Rightarrow> node \<Rightarrow> error + symbol option" where
  "exportEntry P n =
     (case getSymbolAtLocation P (getSourceFile n) of
        None \<Rightarrow> Inr None
      | Some m \<Rightarrow>
         (case exports P m of
            None \<Rightarrow> Inl TypeError
          | Some es \<Rightarrow> findExport P (getSymbolAtLocation P n) es))"

text \<open>The name under which a node's symbol is exported, when \<open>exportEntry\<close> finds an entry;
  and a cache all of whose entries for exported symbols hold that name, as the empty cache
  does.\<close>

definition exportName :: "parsed \<Rightarrow> node \<Rightarrow> string option" where
  "exportName P n =
     (case exportEntry P n of Inr (Some e) \<Rightarrow> Some (symbolName P e) | _ \<Rightarrow> None)"

definition cacheRespectsExports :: "parsed \<Rightarrow> globals \<Rightarrow> bool" where
  "cacheRespectsExports P g =
     (\<forall>n s x. idCache g n = Some s \<longrightarrow> exportName P n = Some x \<longrightarrow> s = x)"

definition fallbackId :: "parsed \<Rightarrow> node \<Rightarrow> string" where
  "fallbackId P n = ''symbol-'' @ escapeHtml P (getText P n) @ ''-'' @ showNat (getStart P n)"

definition remember :: "node \<Rightarrow> string \<Rightarrow> globals \<Rightarrow> (error + string) \<times> globals" where
  "remember n ident g = (Inr ident, g\<lparr>idCache := (idCache g)(n \<mapsto> ident)\<rparr>)"

text \<open>
  \<open>idFor\<close>. The first argument bounds the depth of the recursion through the name of the
  function that owns a parameter: at depth zero the call stack is exhausted.
\<close>

fun idFor :: "nat \<Rightarrow> parsed \<Rightarrow> node \<Rightarrow> globals \<Rightarrow> (error + string) \<times> globals" where
  "idFor 0 P n g = (Inl RangeError, g)"
| "idFor (Suc k) P n g =
     (case idCache g n of
        Some ident \<Rightarrow> (Inr ident, g)
      | None \<Rightarrow>
         (case exportEntry P n of
            Inl e \<Rightarrow> (Inl e, g)
          | Inr (Some entry) \<Rightarrow> remember n (symbolName P entry) g
          | Inr None \<Rightarrow>
             (case parent (getStatement P n) of
                None \<Rightarrow> (Inl TypeError, g)
              | Some sp \<Rightarrow>
                 if kind P sp \<noteq> SourceFile then remember n (fallbackId P n) g
                 else
                   (case check P n of
                      None \<Rightarrow> remember n (''symbol-'' @ getText P n) g
                    | Some param \<Rightarrow>
                       (case parent param of
                          None \<Rightarrow> (Inl TypeError, g)
                        | Some owner \<Rightarrow>
                           (case name P owner of
                              None \<Rightarrow> remember n (fallbackId P n) g
                            | Some fn \<Rightarrow>
                               (case idFor k P fn g of
                                  (Inl e, g') \<Rightarrow> (Inl e, g')
                                | (Inr fid, g') \<Rightarrow>
                                    remember n (fid @ ''-'' @ getText P n) g')))))))"

section \<open>Classification of one identifier\<close>

definition logAmbiguous :: "symbol \<Rightarrow> globals \<Rightarrow> globals" where
  "logAmbiguous s g = g\<lparr>console := console g @ [s]\<rparr>"

definition isDefinition :: "parsed \<Rightarrow> symbol \<Rightarrow> node \<Rightarrow> globals \<Rightarrow> (error + bool) \<times> globals" where
  "isDefinition P s n g =
     (case valueDeclaration P s of
        Some v \<Rightarrow> (Inr (name P v = Some n), g)
      | None \<Rightarrow>
         (case declarations P s of
            None \<Rightarrow> (Inl TypeError, g)
          | Some ds \<Rightarrow>
             (if length ds > 1
              then (let localDeclarations = filter (\<lambda>d. \<not> inLib d) ds;
                        g' = (if length localDeclarations > 1 then logAmbiguous s g else g)
                    in case localDeclarations of
                         [] \<Rightarrow> (Inl TypeError, g')
                       | d # _ \<Rightarrow> (Inr (name P d = Some n), g'))
              else (case ds of
                      [] \<Rightarrow> (Inl TypeError, g)
                    | d # _ \<Rightarrow> (Inr (name P d = Some n), g)))))"

text \<open>The local \<^verbatim>\<open>valueDecl\<close> of the visitor: the name of the value declaration, or of
  the first declaration.\<close>

definition valueDecl :: "parsed \<Rightarrow> symbol \<Rightarrow> node list \<Rightarrow> node option" where
  "valueDecl P s ds =
     name P (case valueDeclaration P s of Some v \<Rightarrow> v | None \<Rightarrow> hd ds)"

text \<open>The test "language-provided type" of the visitor.\<close>

definition languageProvided :: "parsed \<Rightarrow> symbol \<Rightarrow> node list \<Rightarrow> bool" where
  "languageProvided P s ds =
     list_all inLib ((case valueDeclaration P s of Some v \<Rightarrow> [v] | None \<Rightarrow> []) @ ds)"

definition push :: "replacement list \<Rightarrow> nat \<Rightarrow> nat \<Rightarrow> token list \<Rightarrow> replacement list" where
  "push reps s e w = reps @ [\<lparr>r_start = s, r_end = e, r_with = w\<rparr>]"

type_synonym outcome = "(error + replacement list) \<times> globals"

text \<open>The part of the visitor after the import and export bindings: an identifier with a
  symbol that has declarations.\<close>

definition linkSymbol ::
  "nat \<Rightarrow> parsed \<Rightarrow> node \<Rightarrow> symbol \<Rightarrow> node list \<Rightarrow> replacement list \<Rightarrow> globals \<Rightarrow> outcome" where
  "linkSymbol k P n s ds reps g =
     (if languageProvided P s ds then (Inr reps, g)
      else
        (case isDefinition P s n g of
           (Inl e, g1) \<Rightarrow> (Inl e, g1)
         | (Inr True, g1) \<Rightarrow>
             (case idFor k P n g1 of
                (Inl e, g2) \<Rightarrow> (Inl e, g2)
              | (Inr ident, g2) \<Rightarrow>
                  (Inr (push reps (getStart P n) (getEnd P n)
                         (createDefinition P (getStart P n) ident (Str (getText P n))
                            (length (getText P n)))), g2))
         | (Inr False, g1) \<Rightarrow>
             (case valueDecl P s ds of
                None \<Rightarrow> (Inl TypeError, g1)
              | Some v \<Rightarrow>
                 (case idFor k P v g1 of
                    (Inl e, g2) \<Rightarrow> (Inl e, g2)
                  | (Inr ident, g2) \<Rightarrow>
                      (Inr (push reps (getStart P n) (getEnd P n)
                             (createRef P (getStart P n) (''#'' @ ident) (Str (getText P n))
                                (length (getText P n)))), g2)))))"

definition visitUnbound :: "nat \<Rightarrow> parsed \<Rightarrow> node \<Rightarrow> replacement list \<Rightarrow> globals \<Rightarrow> outcome" where
  "visitUnbound k P n reps g =
     (case getSymbolAtLocation P n of
        None \<Rightarrow>
          (case parent n of
             None \<Rightarrow> (Inl TypeError, g)
           | Some p \<Rightarrow>
              if propertyName P p = Some n \<and> moduleSpecifier P (getStatement P n) \<noteq> None
              then (case getRemoteLink P n (getStatement P n) of
                      Inl e \<Rightarrow> (Inl e, g)
                    | Inr href \<Rightarrow>
                        (Inr (push reps (getStart P n) (getEnd P n)
                               (createRef P (getStart P n) href (Str (getText P n))
                                  (length (getText P n)))), g))
              else (Inr reps, g))
      | Some s \<Rightarrow>
          (case declarations P s of
             None \<Rightarrow> (Inr reps, g)
           | Some [] \<Rightarrow> (Inr reps, g)
           | Some (d # ds) \<Rightarrow> linkSymbol k P n s (d # ds) reps g))"

definition visitIdentifier :: "nat \<Rightarrow> parsed \<Rightarrow> node \<Rightarrow> replacement list \<Rightarrow> globals \<Rightarrow> outcome" where
  "visitIdentifier k P n reps g =
     (let nodeText = getText P n; s = getStart P n; e = getEnd P n;
          statement = getStatement P n
      in if moduleSpecifier P statement \<noteq> None
         then
           (case parent n of
              None \<Rightarrow> (Inl TypeError, g)
            | Some p \<Rightarrow>
               (let isLocalDeclaration = (name P p = Some n);
                    isRemoteDeclaration =
                      (kind P p \<noteq> NamespaceImport
                       \<and> (propertyName P p = None \<or> propertyName P p = Some n));
                    prefix = (if kind P statement = ImportDeclaration then ''symbol-'' else '''')
                in if isLocalDeclaration \<and> isRemoteDeclaration
                   then (case getRemoteLink P n statement of
                           Inl err \<Rightarrow> (Inl err, g)
                         | Inr href \<Rightarrow>
                             (Inr (push reps s e
                                    (createRef P s href
                                       (Toks (createDefinition P s (prefix @ nodeText) (Str nodeText)
                                                (length nodeText)))
                                       (length nodeText))), g))
                   else if isLocalDeclaration
                   then (Inr (push reps s e
                                (createDefinition P s (prefix @ nodeText) (Str nodeText)
                                   (length nodeText))), g)
                   else visitUnbound k P n reps g))
         else visitUnbound k P n reps g)"

section \<open>The traversal\<close>

definition transformImportSource :: "parsed \<Rightarrow> node \<Rightarrow> replacement list \<Rightarrow> error + replacement list" where
  \<open>transformImportSource P specifier reps =
     (let s = getStart P specifier; e = getEnd P specifier;
          txt = substring (sourceText P (pathname P)) s e
      in case (case text_of P specifier of
                 None \<Rightarrow> escapeHtmlUndefined P
               | Some t \<Rightarrow> Inr (escapeHtml P t)) of
           Inl err \<Rightarrow> Inl err
         | Inr href \<Rightarrow>
             Inr (push reps s e
                   [safe s (''<a href="'' @ href @ ''" class="hljs-string">''
                            @ escapeHtml P txt @ ''</a>'')]))\<close>

definition visit :: "nat \<Rightarrow> parsed \<Rightarrow> node \<Rightarrow> replacement list \<Rightarrow> globals \<Rightarrow> outcome" where
  "visit k P n reps g =
     (case kind P n of
        Identifier \<Rightarrow> visitIdentifier k P n reps g
      | ImportDeclaration \<Rightarrow>
          (case moduleSpecifier P n of
             None \<Rightarrow> (Inr reps, g)
           | Some specifier \<Rightarrow> (transformImportSource P specifier reps, g))
      | ExportDeclaration \<Rightarrow>
          (case moduleSpecifier P n of
             None \<Rightarrow> (Inr reps, g)
           | Some specifier \<Rightarrow> (transformImportSource P specifier reps, g))
      | ImportEqualsDeclaration \<Rightarrow>
          (case moduleReference P n of
             None \<Rightarrow> (Inl TypeError, g)
           | Some r \<Rightarrow>
              (case expression P r of
                 None \<Rightarrow> (Inr reps, g)
               | Some specifier \<Rightarrow>
                   if kind P specifier = StringLiteral
                   then (transformImportSource P specifier reps, g)
                   else (Inr reps, g)))
      | _ \<Rightarrow> (Inr reps, g))"

text \<open>
  Modelled from the spec: \<^verbatim>\<open>walkAST\<close> of \<^verbatim>\<open>./utils\<close> is not part of the sources. The spec
  gives it as \<^verbatim>\<open>traverse(root, visit(node))\<close>, which "visits every node exactly once,
  pre-order". An exception of the visitor ends the traversal.
\<close>

fun preorder :: "tree \<Rightarrow> nat list \<Rightarrow> nat list list"
  and preorderChildren :: "tree list \<Rightarrow> nat \<Rightarrow> nat list \<Rightarrow> nat list list" where
  "preorder (Tree cs) p = p # preorderChildren cs 0 p"
| "preorderChildren [] i p = []"
| "preorderChildren (c # cs) i p = preorder c (i # p) @ preorderChildren cs (Suc i) p"

fun visitAll ::
  "(node \<Rightarrow> replacement list \<Rightarrow> globals \<Rightarrow> outcome) \<Rightarrow> node list \<Rightarrow> replacement list \<Rightarrow> globals \<Rightarrow> outcome" where
  "visitAll v [] reps g = (Inr reps, g)"
| "visitAll v (n # ns) reps g =
     (case v n reps g of
        (Inl e, g') \<Rightarrow> (Inl e, g')
      | (Inr reps', g') \<Rightarrow> visitAll v ns reps' g')"





section \<open>What the visitor replaces\<close>

text \<open>
  The node whose span a replacement pushed at a node covers: an identifier replaces its own
  span, an import or export declaration the span of its module specifier, an import-equals
  declaration the span of the string literal of its module reference. No other node pushes.
\<close>

definition replacedNode :: "parsed \<Rightarrow> node \<Rightarrow> node option" where
  "replacedNode P n =
     (case kind P n of
        Identifier \<Rightarrow> Some n
      | ImportDeclaration \<Rightarrow> moduleSpecifier P n
      | ExportDeclaration \<Rightarrow> moduleSpecifier P n
      | ImportEqualsDeclaration \<Rightarrow>
          (case moduleReference P n of
             None \<Rightarrow> None
           | Some r \<Rightarrow>
              (case expression P r of
                 None \<Rightarrow> None
               | Some specifier \<Rightarrow>
                   if kind P specifier = StringLiteral then Some specifier else None))
      | _ \<Rightarrow> None)"





section \<open>Example files\<close>

text \<open>
  Four small files, with the syntax tree of the TypeScript parser and the answers of the
  checker written out as tables. Positions are child indices, innermost first; a node that is
  not listed in the table of kinds has a kind the annotator does not look at.
\<close>

definition tableAt :: "string \<Rightarrow> (nat list \<times> 'a) list \<Rightarrow> 'a \<Rightarrow> node \<Rightarrow> 'a" where
  "tableAt f tbl dflt n =
     (if fst n = f then (case map_of tbl (snd n) of Some v \<Rightarrow> v | None \<Rightarrow> dflt) else dflt)"

definition propertyAt :: "string \<Rightarrow> (nat list \<times> 'a) list \<Rightarrow> node \<Rightarrow> 'a option" where
  "propertyAt f tbl n = (if fst n = f then map_of tbl (snd n) else None)"

definition noGlobals :: globals where
  "noGlobals = \<lparr>idCache = Map.empty, console = []\<rparr>"

definition importsFile :: parsed where
  \<open>importsFile = \<lparr>
     pathname = ''/a.ts'',
     sourceText = (\<lambda>f. if f = ''/a.ts'' then ''import d, { a as b, e } from "./m"; import * as ns from "./n"; export { b as c }; export { x } from "./o"; b; import q = require("./r");'' else []),
     shape = Tree [Tree [Tree [Tree [], Tree [Tree [Tree [], Tree []], Tree [Tree []]]], Tree []], Tree [Tree [Tree [Tree []]], Tree []], Tree [Tree [Tree [Tree [], Tree []]]], Tree [Tree [Tree [Tree []]], Tree []], Tree [Tree []], Tree [Tree [], Tree [Tree []]]],
     kind = tableAt ''/a.ts'' [([], SourceFile), ([0], ImportDeclaration), ([0, 0, 0], Identifier),
         ([1, 0, 0], NamedImports), ([0, 0, 1, 0, 0], Identifier), ([1, 0, 1, 0, 0], Identifier),
         ([0, 1, 1, 0, 0], Identifier), ([1, 0], StringLiteral), ([1], ImportDeclaration),
         ([0, 0, 1], NamespaceImport), ([0, 0, 0, 1], Identifier), ([1, 1], StringLiteral),
         ([2], ExportDeclaration), ([0, 2], NamedExports), ([0, 0, 0, 2], Identifier),
         ([1, 0, 0, 2], Identifier), ([3], ExportDeclaration), ([0, 3], NamedExports),
         ([0, 0, 0, 3], Identifier), ([1, 3], StringLiteral), ([0, 4], Identifier),
         ([5], ImportEqualsDeclaration), ([0, 5], Identifier),
         ([0, 1, 5], StringLiteral)] OtherKind,
     name = propertyAt ''/a.ts'' [([0, 0], (''/a.ts'', [0, 0, 0])),
         ([0, 1, 0, 0], (''/a.ts'', [1, 0, 1, 0, 0])), ([1, 1, 0, 0], (''/a.ts'', [0, 1, 1, 0, 0])),
         ([0, 0, 1], (''/a.ts'', [0, 0, 0, 1])), ([0, 0, 2], (''/a.ts'', [1, 0, 0, 2])),
         ([0, 0, 3], (''/a.ts'', [0, 0, 0, 3])), ([5], (''/a.ts'', [0, 5]))],
     propertyName = propertyAt ''/a.ts'' [([0, 1, 0, 0], (''/a.ts'', [0, 0, 1, 0, 0])),
         ([0, 0, 2], (''/a.ts'', [0, 0, 0, 2]))],
     moduleSpecifier = propertyAt ''/a.ts'' [([0], (''/a.ts'', [1, 0])), ([1], (''/a.ts'', [1, 1])),
         ([3], (''/a.ts'', [1, 3]))],
     moduleReference = propertyAt ''/a.ts'' [([5], (''/a.ts'', [1, 5]))],
     expression = propertyAt ''/a.ts'' [([1, 5], (''/a.ts'', [0, 1, 5]))],
     text_of = propertyAt ''/a.ts'' [([0, 0, 0], ''d''), ([0, 0, 1, 0, 0], ''a''),
         ([1, 0, 1, 0, 0], ''b''), ([0, 1, 1, 0, 0], ''e''), ([1, 0], ''./m''),
         ([0, 0, 0, 1], ''ns''), ([1, 1], ''./n''), ([0, 0, 0, 2], ''b''), ([1, 0, 0, 2], ''c''),
         ([0, 0, 0, 3], ''x''), ([1, 3], ''./o''), ([0, 4], ''b''), ([0, 5], ''q''),
         ([0, 1, 5], ''./r'')],
     getStart = tableAt ''/a.ts'' [([0, 0, 0], 7), ([0, 0, 1, 0, 0], 12), ([1, 0, 1, 0, 0], 17),
         ([0, 1, 1, 0, 0], 20), ([1, 0], 29), ([0, 0, 0, 1], 48), ([1, 1], 56), ([0, 0, 0, 2], 72),
         ([1, 0, 0, 2], 77), ([0, 0, 0, 3], 91), ([1, 3], 100), ([0, 4], 107), ([0, 5], 117),
         ([0, 1, 5], 129)] 0,
     getEnd = tableAt ''/a.ts'' [([0, 0, 0], 8), ([0, 0, 1, 0, 0], 13), ([1, 0, 1, 0, 0], 18),
         ([0, 1, 1, 0, 0], 21), ([1, 0], 34), ([0, 0, 0, 1], 50), ([1, 1], 61), ([0, 0, 0, 2], 73),
         ([1, 0, 0, 2], 78), ([0, 0, 0, 3], 92), ([1, 3], 105), ([0, 4], 108), ([0, 5], 118),
         ([0, 1, 5], 134)] 0,
     getSymbolAtLocation = propertyAt ''/a.ts'' [([], 1), ([0, 0, 0], 2), ([1, 0, 1, 0, 0], 3),
         ([0, 1, 1, 0, 0], 4), ([0, 0, 0, 1], 5), ([0, 0, 0, 2], 3), ([1, 0, 0, 2], 6),
         ([0, 0, 0, 3], 7), ([0, 4], 3), ([0, 5], 8)],
     valueDeclaration = map_of [],
     declarations = map_of [(2, [(''/a.ts'', [0, 0])]), (3, [(''/a.ts'', [0, 1, 0, 0])]),
         (4, [(''/a.ts'', [1, 1, 0, 0])]), (5, [(''/a.ts'', [0, 0, 1])]),
         (6, [(''/a.ts'', [0, 0, 2])]), (7, [(''/a.ts'', [0, 0, 3])]), (8, [(''/a.ts'', [5])])],
     exports = map_of [(1, [6, 7])],
     symbolName = (\<lambda>s. case map_of [(1, ''a''), (2, ''d''), (3, ''b''), (4, ''e''),
         (5, ''ns''), (6, ''c''), (7, ''x''),
         (8, ''q'')] s of Some x \<Rightarrow> x | None \<Rightarrow> []),
     escapeHtml = (\<lambda>s. s),
     escapeHtmlUndefined = Inl TypeError \<rparr>\<close>




section \<open>Facts about the model\<close>

lemmas table_defs = tableAt_def propertyAt_def noGlobals_def

section \<open>Remote links\<close>

text \<open>
  Claim C6. For an identifier bound through an import or export clause whose statement has a
  module specifier with text \<open>m\<close>, \<open>getRemoteLink\<close> returns \<open>m#name\<close>, where the name is the
  text of the rename source when the clause has the form \<^verbatim>\<open>{a as b}\<close>, otherwise the text of
  the local name when the clause is a list of named imports or exports, and otherwise
  \<^verbatim>\<open>default\<close>.
\<close>

theorem getRemoteLink_exported_name:
  assumes "moduleSpecifier P statement = Some spec" and "text_of P spec = Some m"
    and "parent n = Some p"
  shows "(propertyName P p = Some pn \<and> text_of P pn = Some t
            \<longrightarrow> getRemoteLink P n statement = Inr (m @ ''#'' @ t))
       \<and> (propertyName P p = None \<and> parent p = Some pp
            \<and> (kind P pp = NamedImports \<or> kind P pp = NamedExports)
            \<and> name P p = Some nm \<and> text_of P nm = Some t
            \<longrightarrow> getRemoteLink P n statement = Inr (m @ ''#'' @ t))
       \<and> (propertyName P p = None \<and> parent p = Some pp
            \<and> kind P pp \<noteq> NamedImports \<and> kind P pp \<noteq> NamedExports
            \<longrightarrow> getRemoteLink P n statement = Inr (m @ ''#default''))"
  using assms by (simp add: getRemoteLink_def toStr_def)

theorem getRemoteLink_exported_name_witness:
  "getRemoteLink importsFile (''/a.ts'', [0, 0, 1, 0, 0]) (''/a.ts'', [0]) = Inr ''./m#a''
   \<and> getRemoteLink importsFile (''/a.ts'', [0, 1, 1, 0, 0]) (''/a.ts'', [0]) = Inr ''./m#e''
   \<and> getRemoteLink importsFile (''/a.ts'', [0, 0, 0]) (''/a.ts'', [0]) = Inr ''./m#default''"
proof -
  have spec: "moduleSpecifier importsFile (''/a.ts'', [0]) = Some (''/a.ts'', [1, 0])"
    and m: "text_of importsFile (''/a.ts'', [1, 0]) = Some ''./m''"
    by (simp_all add: importsFile_def table_defs)
  have pa: "parent (''/a.ts'', [0, 0, 1, 0, 0]) = Some (''/a.ts'', [0, 1, 0, 0])"
    and pe: "parent (''/a.ts'', [0, 1, 1, 0, 0]) = Some (''/a.ts'', [1, 1, 0, 0])"
    and pd: "parent (''/a.ts'', [0, 0, 0]) = Some (''/a.ts'', [0, 0])"
    by (simp_all add: parent_def)
  have a: "propertyName importsFile (''/a.ts'', [0, 1, 0, 0]) = Some (''/a.ts'', [0, 0, 1, 0, 0])
           \<and> text_of importsFile (''/a.ts'', [0, 0, 1, 0, 0]) = Some ''a''"
    by (simp add: importsFile_def table_defs)
  have e: "propertyName importsFile (''/a.ts'', [1, 1, 0, 0]) = None
           \<and> parent (''/a.ts'', [1, 1, 0, 0]) = Some (''/a.ts'', [1, 0, 0])
           \<and> (kind importsFile (''/a.ts'', [1, 0, 0]) = NamedImports
                \<or> kind importsFile (''/a.ts'', [1, 0, 0]) = NamedExports)
           \<and> name importsFile (''/a.ts'', [1, 1, 0, 0]) = Some (''/a.ts'', [0, 1, 1, 0, 0])
           \<and> text_of importsFile (''/a.ts'', [0, 1, 1, 0, 0]) = Some ''e''"
    by (simp add: importsFile_def table_defs parent_def)
  have d: "propertyName importsFile (''/a.ts'', [0, 0]) = None
           \<and> parent (''/a.ts'', [0, 0]) = Some (''/a.ts'', [0])
           \<and> kind importsFile (''/a.ts'', [0]) \<noteq> NamedImports
           \<and> kind importsFile (''/a.ts'', [0]) \<noteq> NamedExports"
    by (simp add: importsFile_def table_defs parent_def)
  from getRemoteLink_exported_name [OF spec m pa, where pn = "(''/a.ts'', [0, 0, 1, 0, 0])" and t = "''a''"] a
  have 1: "getRemoteLink importsFile (''/a.ts'', [0, 0, 1, 0, 0]) (''/a.ts'', [0]) = Inr ''./m#a''"
    by simp
  from getRemoteLink_exported_name [OF spec m pe, where pp = "(''/a.ts'', [1, 0, 0])"
      and nm = "(''/a.ts'', [0, 1, 1, 0, 0])" and t = "''e''"] e
  have 2: "getRemoteLink importsFile (''/a.ts'', [0, 1, 1, 0, 0]) (''/a.ts'', [0]) = Inr ''./m#e''"
    by simp
  from getRemoteLink_exported_name [OF spec m pd, where pp = "(''/a.ts'', [0])"] d
  have 3: "getRemoteLink importsFile (''/a.ts'', [0, 0, 0]) (''/a.ts'', [0]) = Inr ''./m#default''"
    by simp
  from 1 2 3 show ?thesis by simp
qed

section \<open>Module specifiers\<close>

text \<open>
  Claim C5, amended. For an import or export declaration with a module specifier, and for an
  import-equals declaration whose reference is a string literal, the span of the literal is
  replaced by one already-rendered token: an \<^verbatim>\<open><a>\<close> element whose \<^verbatim>\<open>href\<close> is the escaped
  text of the specifier, with class \<^verbatim>\<open>hljs-string\<close> and no id, around the escaped source text
  of the literal. It is a hyperlink to the module, not an unlinked span.
\<close>

theorem specifier_replaced_by_link:
  assumes "(kind P n = ImportDeclaration \<or> kind P n = ExportDeclaration)
             \<and> moduleSpecifier P n = Some sp
           \<or> kind P n = ImportEqualsDeclaration \<and> moduleReference P n = Some r
             \<and> expression P r = Some sp \<and> kind P sp = StringLiteral"
    and "text_of P sp = Some t"
  shows \<open>visit k P n reps g =
           (Inr (reps @
              [\<lparr>r_start = getStart P sp, r_end = getEnd P sp,
                r_with =
                  [\<lparr>t_start = getStart P sp, t_safe = True,
                    t_content =
                      ''<a href="'' @ escapeHtml P t @ ''" class="hljs-string">''
                      @ escapeHtml P (substring (sourceText P (pathname P))
                                        (getStart P sp) (getEnd P sp))
                      @ ''</a>''\<rparr>]\<rparr>]), g)\<close>
  using assms
  by (auto simp: visit_def transformImportSource_def push_def safe_def Let_def)

theorem specifier_replaced_by_link_witness:
  \<open>visit 0 importsFile (''/a.ts'', [0]) [] noGlobals =
     (Inr [\<lparr>r_start = 29, r_end = 34,
            r_with = [\<lparr>t_start = 29, t_safe = True,
                       t_content = ''<a href="./m" class="hljs-string">"./m"</a>''\<rparr>]\<rparr>],
      noGlobals)
   \<and> visit 0 importsFile (''/a.ts'', [5]) [] noGlobals =
     (Inr [\<lparr>r_start = 129, r_end = 134,
            r_with = [\<lparr>t_start = 129, t_safe = True,
                       t_content = ''<a href="./r" class="hljs-string">"./r"</a>''\<rparr>]\<rparr>],
      noGlobals)\<close>
proof -
  have h1: "(kind importsFile (''/a.ts'', [0]) = ImportDeclaration
              \<or> kind importsFile (''/a.ts'', [0]) = ExportDeclaration)
             \<and> moduleSpecifier importsFile (''/a.ts'', [0]) = Some (''/a.ts'', [1, 0])
           \<or> kind importsFile (''/a.ts'', [0]) = ImportEqualsDeclaration
             \<and> moduleReference importsFile (''/a.ts'', [0]) = Some (''/a.ts'', [])
             \<and> expression importsFile (''/a.ts'', []) = Some (''/a.ts'', [1, 0])
             \<and> kind importsFile (''/a.ts'', [1, 0]) = StringLiteral"
    by code_simp
  have t1: "text_of importsFile (''/a.ts'', [1, 0]) = Some ''./m''"
    by code_simp
  have h2: "(kind importsFile (''/a.ts'', [5]) = ImportDeclaration
              \<or> kind importsFile (''/a.ts'', [5]) = ExportDeclaration)
             \<and> moduleSpecifier importsFile (''/a.ts'', [5]) = Some (''/a.ts'', [0, 1, 5])
           \<or> kind importsFile (''/a.ts'', [5]) = ImportEqualsDeclaration
             \<and> moduleReference importsFile (''/a.ts'', [5]) = Some (''/a.ts'', [1, 5])
             \<and> expression importsFile (''/a.ts'', [1, 5]) = Some (''/a.ts'', [0, 1, 5])
             \<and> kind importsFile (''/a.ts'', [0, 1, 5]) = StringLiteral"
    by code_simp
  have t2: "text_of importsFile (''/a.ts'', [0, 1, 5]) = Some ''./r''"
    by code_simp
  have e1: \<open>getStart importsFile (''/a.ts'', [1, 0]) = 29 \<and> getEnd importsFile (''/a.ts'', [1, 0]) = 34
    \<and> escapeHtml importsFile ''./m'' = ''./m''
    \<and> escapeHtml importsFile (substring (sourceText importsFile (pathname importsFile)) 29 34) = ''"./m"''\<close>
    by code_simp
  have e2: \<open>getStart importsFile (''/a.ts'', [0, 1, 5]) = 129 \<and> getEnd importsFile (''/a.ts'', [0, 1, 5]) = 134
    \<and> escapeHtml importsFile ''./r'' = ''./r''
    \<and> escapeHtml importsFile (substring (sourceText importsFile (pathname importsFile)) 129 134) = ''"./r"''\<close>
    by code_simp
  from specifier_replaced_by_link [OF h1 t1, of 0 "[]" noGlobals]
       specifier_replaced_by_link [OF h2 t2, of 0 "[]" noGlobals] e1 e2
  show ?thesis by simp
qed

text \<open>
  Against claim C5 as it was stated ("unlinked ... not a hyperlink"): for
  \<^verbatim>\<open>import d, { a as b, e } from "./m"\<close> the literal is replaced by an \<^verbatim>\<open><a href>\<close> element
  that points to the module.
\<close>

theorem specifier_is_hyperlink:
  \<open>fst (visit 0 importsFile (''/a.ts'', [0]) [] noGlobals) =
     Inr [\<lparr>r_start = 29, r_end = 34,
           r_with = [\<lparr>t_start = 29, t_safe = True,
                      t_content = ''<a href="./m" class="hljs-string">"./m"</a>''\<rparr>]\<rparr>]\<close>
  by code_simp

section \<open>Bindings of import and export clauses\<close>

text \<open>
  Claim C4, amended. For an identifier whose enclosing statement has a module specifier and
  which is the locally bound name of its clause: when it is eligible for a remote link (its
  parent is not a namespace import, and the parent's rename source is absent or the node
  itself) the replacement is a link to the remote symbol that wraps a definition anchor (the
  \<^verbatim>\<open><a class="ref">\<close> element is the outer one, the \<^verbatim>\<open><span class="definition">\<close> the inner).
  When it is not eligible (a namespace import, or the target of a rename) the replacement is a
  definition anchor with no link.
\<close>

theorem import_binding_markup:
  assumes "kind P n = Identifier"
    and "moduleSpecifier P (getStatement P n) = Some spec"
    and "parent n = Some p" and "name P p = Some n"
  shows \<open>(kind P p \<noteq> NamespaceImport
            \<and> (propertyName P p = None \<or> propertyName P p = Some n)
            \<and> getRemoteLink P n (getStatement P n) = Inr href
          \<longrightarrow> visit k P n reps g =
               (Inr (reps @
                  [\<lparr>r_start = getStart P n, r_end = getEnd P n,
                    r_with =
                      [safe (getStart P n)
                         (''<a class="ref" href="'' @ escapeHtml P href @ ''">''),
                       safe (getStart P n)
                         (''<span class="definition" id="''
                          @ escapeHtml P
                              ((if kind P (getStatement P n) = ImportDeclaration
                                then ''symbol-'' else '''') @ getText P n)
                          @ ''">''),
                       unsafe (getStart P n) (getText P n),
                       safe (getStart P n + length (getText P n)) ''</span>'',
                       safe (getStart P n + length (getText P n)) ''</a>'']\<rparr>]), g))
       \<and> (kind P p = NamespaceImport
            \<or> (propertyName P p \<noteq> None \<and> propertyName P p \<noteq> Some n)
          \<longrightarrow> visit k P n reps g =
               (Inr (reps @
                  [\<lparr>r_start = getStart P n, r_end = getEnd P n,
                    r_with =
                      [safe (getStart P n)
                         (''<span class="definition" id="''
                          @ escapeHtml P
                              ((if kind P (getStatement P n) = ImportDeclaration
                                then ''symbol-'' else '''') @ getText P n)
                          @ ''">''),
                       unsafe (getStart P n) (getText P n),
                       safe (getStart P n + length (getText P n)) ''</span>'']\<rparr>]), g))\<close>
  using assms
  by (auto simp: visit_def visitIdentifier_def Let_def push_def createRef_def
      createDefinition_def embed_def)

theorem import_binding_markup_witness:
  \<open>visit 0 importsFile (''/a.ts'', [0, 1, 1, 0, 0]) [] noGlobals =
     (Inr [\<lparr>r_start = 20, r_end = 21,
            r_with =
              [safe 20 ''<a class="ref" href="./m#e">'',
               safe 20 ''<span class="definition" id="symbol-e">'',
               unsafe 20 ''e'', safe 21 ''</span>'', safe 21 ''</a>'']\<rparr>], noGlobals)
   \<and> visit 0 importsFile (''/a.ts'', [0, 0, 0, 1]) [] noGlobals =
     (Inr [\<lparr>r_start = 48, r_end = 50,
            r_with =
              [safe 48 ''<span class="definition" id="symbol-ns">'',
               unsafe 48 ''ns'', safe 50 ''</span>'']\<rparr>], noGlobals)\<close>
proof -
  have e: "kind importsFile (''/a.ts'', [0, 1, 1, 0, 0]) = Identifier"
    "moduleSpecifier importsFile (getStatement importsFile (''/a.ts'', [0, 1, 1, 0, 0]))
       = Some (''/a.ts'', [1, 0])"
    "parent (''/a.ts'', [0, 1, 1, 0, 0]) = Some (''/a.ts'', [1, 1, 0, 0])"
    "name importsFile (''/a.ts'', [1, 1, 0, 0]) = Some (''/a.ts'', [0, 1, 1, 0, 0])"
    by code_simp+
  have e': "kind importsFile (''/a.ts'', [1, 1, 0, 0]) \<noteq> NamespaceImport
      \<and> (propertyName importsFile (''/a.ts'', [1, 1, 0, 0]) = None
          \<or> propertyName importsFile (''/a.ts'', [1, 1, 0, 0]) = Some (''/a.ts'', [0, 1, 1, 0, 0]))
      \<and> getRemoteLink importsFile (''/a.ts'', [0, 1, 1, 0, 0])
            (getStatement importsFile (''/a.ts'', [0, 1, 1, 0, 0])) = Inr ''./m#e''"
    by code_simp
  have ev: \<open>getStart importsFile (''/a.ts'', [0, 1, 1, 0, 0]) = 20
      \<and> getEnd importsFile (''/a.ts'', [0, 1, 1, 0, 0]) = 21
      \<and> getText importsFile (''/a.ts'', [0, 1, 1, 0, 0]) = ''e''
      \<and> kind importsFile (getStatement importsFile (''/a.ts'', [0, 1, 1, 0, 0])) = ImportDeclaration
      \<and> escapeHtml importsFile ''./m#e'' = ''./m#e''
      \<and> escapeHtml importsFile ''symbol-e'' = ''symbol-e''\<close>
    by code_simp
  have ns: "kind importsFile (''/a.ts'', [0, 0, 0, 1]) = Identifier"
    "moduleSpecifier importsFile (getStatement importsFile (''/a.ts'', [0, 0, 0, 1]))
       = Some (''/a.ts'', [1, 1])"
    "parent (''/a.ts'', [0, 0, 0, 1]) = Some (''/a.ts'', [0, 0, 1])"
    "name importsFile (''/a.ts'', [0, 0, 1]) = Some (''/a.ts'', [0, 0, 0, 1])"
    by code_simp+
  have ns': "kind importsFile (''/a.ts'', [0, 0, 1]) = NamespaceImport"
    by code_simp
  have nsv: \<open>getStart importsFile (''/a.ts'', [0, 0, 0, 1]) = 48
      \<and> getEnd importsFile (''/a.ts'', [0, 0, 0, 1]) = 50
      \<and> getText importsFile (''/a.ts'', [0, 0, 0, 1]) = ''ns''
      \<and> kind importsFile (getStatement importsFile (''/a.ts'', [0, 0, 0, 1])) = ImportDeclaration
      \<and> escapeHtml importsFile ''symbol-ns'' = ''symbol-ns''\<close>
    by code_simp
  from import_binding_markup [OF e, where href = "''./m#e''" and k = 0 and reps = "[]"
      and g = noGlobals] e' ev
  have 1: \<open>visit 0 importsFile (''/a.ts'', [0, 1, 1, 0, 0]) [] noGlobals =
     (Inr [\<lparr>r_start = 20, r_end = 21,
            r_with =
              [safe 20 ''<a class="ref" href="./m#e">'',
               safe 20 ''<span class="definition" id="symbol-e">'',
               unsafe 20 ''e'', safe 21 ''</span>'', safe 21 ''</a>'']\<rparr>], noGlobals)\<close>
    by simp
  from import_binding_markup [OF ns, where href = "[]" and k = 0 and reps = "[]"
      and g = noGlobals] ns' nsv
  have 2: \<open>visit 0 importsFile (''/a.ts'', [0, 0, 0, 1]) [] noGlobals =
     (Inr [\<lparr>r_start = 48, r_end = 50,
            r_with =
              [safe 48 ''<span class="definition" id="symbol-ns">'',
               unsafe 48 ''ns'', safe 50 ''</span>'']\<rparr>], noGlobals)\<close>
    by simp
  from 1 2 show ?thesis by simp
qed

text \<open>
  Against claim C4 as it was stated ("a definition anchor wrapping a link"): for the name
  \<^verbatim>\<open>e\<close> of \<^verbatim>\<open>import d, { a as b, e } from "./m"\<close> the first token opens the link and
  the anchor is inside it.
\<close>

theorem import_binding_link_is_outermost:
  \<open>fst (visit 0 importsFile (''/a.ts'', [0, 1, 1, 0, 0]) [] noGlobals) =
     Inr [\<lparr>r_start = 20, r_end = 21,
           r_with =
             [\<lparr>t_start = 20, t_safe = True, t_content = ''<a class="ref" href="./m#e">''\<rparr>,
              \<lparr>t_start = 20, t_safe = True,
                t_content = ''<span class="definition" id="symbol-e">''\<rparr>,
              \<lparr>t_start = 20, t_safe = False, t_content = ''e''\<rparr>,
              \<lparr>t_start = 21, t_safe = True, t_content = ''</span>''\<rparr>,
              \<lparr>t_start = 21, t_safe = True, t_content = ''</a>''\<rparr>]\<rparr>]\<close>
  by code_simp

text \<open>
  Claim C10, amended. For the locally bound name of a clause whose enclosing statement has a
  module specifier, the id of the definition anchor is \<^verbatim>\<open>symbol-\<close> followed by the
  identifier's text when the statement is an import declaration, and the bare text when it
  is any other statement with a module specifier (an export declaration). The identity
  allocator is not consulted: the cache is left as it was, and the replacement is the same
  for every cache and every depth of stack. The name of an import-equals declaration is not
  covered: that declaration has a module reference, not a module specifier.
\<close>

theorem import_anchor_id:
  assumes "kind P n = Identifier"
    and "moduleSpecifier P (getStatement P n) = Some spec"
    and "parent n = Some p" and "name P p = Some n"
    and "visit k P n reps g = (Inr reps', g')"
  shows \<open>g' = g
       \<and> visit k' P n reps h = (Inr reps', h)
       \<and> safe (getStart P n)
            (''<span class="definition" id="''
             @ escapeHtml P
                 ((if kind P (getStatement P n) = ImportDeclaration then ''symbol-'' else '''')
                  @ getText P n)
             @ ''">'')
          \<in> set (r_with (last reps'))\<close>
  using assms
  by (auto simp: visit_def visitIdentifier_def Let_def push_def createRef_def
      createDefinition_def embed_def split: sum.splits if_splits)

theorem import_anchor_id_witness:
  \<open>safe 17 ''<span class="definition" id="symbol-b">''
     \<in> set (r_with (last
          [\<lparr>r_start = 17, r_end = 18,
            r_with = [safe 17 ''<span class="definition" id="symbol-b">'',
                      unsafe 17 ''b'', safe 18 ''</span>'']\<rparr>]))
   \<and> visit 5 importsFile (''/a.ts'', [1, 0, 1, 0, 0]) [] \<lparr>idCache = Map.empty, console = [7]\<rparr> =
       (Inr [\<lparr>r_start = 17, r_end = 18,
            r_with = [safe 17 ''<span class="definition" id="symbol-b">'',
                      unsafe 17 ''b'', safe 18 ''</span>'']\<rparr>], \<lparr>idCache = Map.empty, console = [7]\<rparr>)
   \<and> safe 91 ''<span class="definition" id="x">''
     \<in> set (r_with (last
          [\<lparr>r_start = 91, r_end = 92,
            r_with = [safe 91 ''<a class="ref" href="./o#x">'',
                      safe 91 ''<span class="definition" id="x">'',
                      unsafe 91 ''x'', safe 92 ''</span>'', safe 92 ''</a>'']\<rparr>]))\<close>
proof -
  have b: "kind importsFile (''/a.ts'', [1, 0, 1, 0, 0]) = Identifier"
    "moduleSpecifier importsFile (getStatement importsFile (''/a.ts'', [1, 0, 1, 0, 0]))
       = Some (''/a.ts'', [1, 0])"
    "parent (''/a.ts'', [1, 0, 1, 0, 0]) = Some (''/a.ts'', [0, 1, 0, 0])"
    "name importsFile (''/a.ts'', [0, 1, 0, 0]) = Some (''/a.ts'', [1, 0, 1, 0, 0])"
    by code_simp+
  have bf: \<open>fst (visit 0 importsFile (''/a.ts'', [1, 0, 1, 0, 0]) [] noGlobals) =
       Inr [\<lparr>r_start = 17, r_end = 18,
              r_with = [safe 17 ''<span class="definition" id="symbol-b">'',
                        unsafe 17 ''b'', safe 18 ''</span>'']\<rparr>]\<close>
    by code_simp
  have br: \<open>visit 0 importsFile (''/a.ts'', [1, 0, 1, 0, 0]) [] noGlobals =
       (Inr [\<lparr>r_start = 17, r_end = 18,
              r_with = [safe 17 ''<span class="definition" id="symbol-b">'',
                        unsafe 17 ''b'', safe 18 ''</span>'']\<rparr>],
        snd (visit 0 importsFile (''/a.ts'', [1, 0, 1, 0, 0]) [] noGlobals))\<close>
    using bf by (simp add: prod_eq_iff)
  have bv: \<open>getStart importsFile (''/a.ts'', [1, 0, 1, 0, 0]) = 17
      \<and> getText importsFile (''/a.ts'', [1, 0, 1, 0, 0]) = ''b''
      \<and> kind importsFile (getStatement importsFile (''/a.ts'', [1, 0, 1, 0, 0])) = ImportDeclaration
      \<and> escapeHtml importsFile ''symbol-b'' = ''symbol-b''\<close>
    by code_simp
  have x: "kind importsFile (''/a.ts'', [0, 0, 0, 3]) = Identifier"
    "moduleSpecifier importsFile (getStatement importsFile (''/a.ts'', [0, 0, 0, 3]))
       = Some (''/a.ts'', [1, 3])"
    "parent (''/a.ts'', [0, 0, 0, 3]) = Some (''/a.ts'', [0, 0, 3])"
    "name importsFile (''/a.ts'', [0, 0, 3]) = Some (''/a.ts'', [0, 0, 0, 3])"
    by code_simp+
  have xf: \<open>fst (visit 0 importsFile (''/a.ts'', [0, 0, 0, 3]) [] noGlobals) =
       Inr [\<lparr>r_start = 91, r_end = 92,
            r_with = [safe 91 ''<a class="ref" href="./o#x">'',
                      safe 91 ''<span class="definition" id="x">'',
                      unsafe 91 ''x'', safe 92 ''</span>'', safe 92 ''</a>'']\<rparr>]\<close>
    by code_simp
  have xr: \<open>visit 0 importsFile (''/a.ts'', [0, 0, 0, 3]) [] noGlobals =
       (Inr [\<lparr>r_start = 91, r_end = 92,
            r_with = [safe 91 ''<a class="ref" href="./o#x">'',
                      safe 91 ''<span class="definition" id="x">'',
                      unsafe 91 ''x'', safe 92 ''</span>'', safe 92 ''</a>'']\<rparr>],
        snd (visit 0 importsFile (''/a.ts'', [0, 0, 0, 3]) [] noGlobals))\<close>
    using xf by (simp add: prod_eq_iff)
  have xv: \<open>getStart importsFile (''/a.ts'', [0, 0, 0, 3]) = 91
      \<and> getText importsFile (''/a.ts'', [0, 0, 0, 3]) = ''x''
      \<and> kind importsFile (getStatement importsFile (''/a.ts'', [0, 0, 0, 3])) = ExportDeclaration
      \<and> escapeHtml importsFile ''x'' = ''x''\<close>
    by code_simp
  from import_anchor_id [OF b br, of 5 "\<lparr>idCache = Map.empty, console = [7]\<rparr>"] bv
       import_anchor_id [OF x xr, of 5 noGlobals] xv
  show ?thesis by simp
qed

text \<open>
  Against claim C10 as it was stated (the bare text for an import-equals declaration, without
  the allocator): in \<^verbatim>\<open>import q = require("./r")\<close> the statement has no module specifier,
  the name \<^verbatim>\<open>q\<close> is anchored as an ordinary declaration, its id is \<^verbatim>\<open>symbol-q\<close> and it
  is in the cache afterwards.
\<close>

theorem import_equals_name_uses_allocator:
  \<open>moduleSpecifier importsFile (getStatement importsFile (''/a.ts'', [0, 5])) = None
   \<and> kind importsFile (getStatement importsFile (''/a.ts'', [0, 5])) = ImportEqualsDeclaration
   \<and> fst (visit 1 importsFile (''/a.ts'', [0, 5]) [] noGlobals) =
       Inr [\<lparr>r_start = 117, r_end = 118,
             r_with = [safe 117 ''<span class="definition" id="symbol-q">'',
                       unsafe 117 ''q'', safe 118 ''</span>'']\<rparr>]
   \<and> idCache (snd (visit 1 importsFile (''/a.ts'', [0, 5]) [] noGlobals)) (''/a.ts'', [0, 5])
       = Some ''symbol-q''\<close>
  by code_simp

section \<open>Language-provided symbols\<close>



section \<open>The declaring occurrence\<close>




section \<open>Depth of the recursion of the allocator\<close>

text \<open>
  In a parsed file the name of a declaration is one of its children and is not itself a
  parameter. Then the recursion of \<open>idFor\<close> climbs: a stack deeper than the position of the
  nearest parameter is enough, and \<open>idFor\<close> does not overflow.
\<close>

lemma checkPos_length:
  "checkPos P f p = Some q \<Longrightarrow> length q \<le> length p"
  by (induction p) (auto split: if_splits)

lemma findExport_error:
  "findExport P s es = Inl e \<Longrightarrow> e = TypeError"
  by (induction es) (auto split: option.splits if_splits)

lemma exportEntry_error:
  "exportEntry P n = Inl e \<Longrightarrow> e = TypeError"
  by (auto simp: exportEntry_def split: option.splits dest: findExport_error)

lemma idFor_stack_suffices:
  assumes wf: "\<And>m x. name P m = Some x \<Longrightarrow> parent x = Some m \<and> kind P x \<noteq> Parameter"
  shows "(case check P n of None \<Rightarrow> 0 | Some q \<Rightarrow> Suc (length (snd q))) < k
         \<Longrightarrow> fst (idFor k P n g) \<noteq> Inl RangeError"
proof (induction k arbitrary: n g)
  case 0
  then show ?case by simp
next
  case (Suc k)
  have rec: "fst (idFor k P fn g) \<noteq> Inl RangeError"
    if c: "check P n = Some param" and o: "parent param = Some owner"
      and f: "name P owner = Some fn" for param owner fn
  proof -
    from wf [OF f] have pf: "parent fn = Some owner" and kf: "kind P fn \<noteq> Parameter"
      by simp_all
    from o obtain i where sp: "snd param = i # snd owner"
      by (auto simp: parent_def split: list.splits)
    from pf obtain j where sf: "snd fn = j # snd owner" "fst fn = fst owner"
      by (auto simp: parent_def split: list.splits)
    from c Suc.prems have b: "length (snd param) < k"
      by simp
    have "(case check P fn of None \<Rightarrow> 0 | Some q \<Rightarrow> Suc (length (snd q))) < k"
    proof (cases "check P fn")
      case None
      with b show ?thesis by simp
    next
      case (Some q)
      with kf sf have "checkPos P (fst owner) (snd owner) = Some (snd q)"
        by (cases fn) (auto simp: check_def)
      then have "length (snd q) \<le> length (snd owner)"
        by (rule checkPos_length)
      with Some b sp show ?thesis by simp
    qed
    then show ?thesis by (rule Suc.IH)
  qed
  have rec': "e \<noteq> RangeError"
    if "check P n = Some param" and "parent param = Some owner"
      and "name P owner = Some fn" and "idFor k P fn g = (Inl e, h)" for param owner fn e h
    using rec [OF that(1-3)] that(4) by auto
  show ?case
    by (auto simp: remember_def split: sum.splits option.splits if_splits prod.splits
        dest: exportEntry_error rec')
qed

section \<open>The cache during and after a pass\<close>




lemma isDefinition_cache:
  "isDefinition P s n g = (r, g') \<Longrightarrow> idCache g' = idCache g"
  by (auto simp: isDefinition_def Let_def logAmbiguous_def
      split: option.splits list.splits if_splits)









section \<open>Replacements do not overlap\<close>

text \<open>A visit pushes at most one replacement, and it covers the span of the node's own
  token.\<close>

lemma transformImportSource_pushes:
  "transformImportSource P sp reps = Inr reps'
   \<Longrightarrow> \<exists>w. reps' = reps @ [\<lparr>r_start = getStart P sp, r_end = getEnd P sp, r_with = w\<rparr>]"
  by (auto simp: transformImportSource_def Let_def push_def split: sum.splits option.splits)

lemma linkSymbol_pushes:
  "linkSymbol k P n s ds reps g = (Inr reps', g')
   \<Longrightarrow> reps' = reps
       \<or> (\<exists>w. reps' = reps @ [\<lparr>r_start = getStart P n, r_end = getEnd P n, r_with = w\<rparr>])"
  by (auto simp: linkSymbol_def push_def
      split: if_splits prod.splits sum.splits bool.splits option.splits)

lemma visitUnbound_pushes:
  "visitUnbound k P n reps g = (Inr reps', g')
   \<Longrightarrow> reps' = reps
       \<or> (\<exists>w. reps' = reps @ [\<lparr>r_start = getStart P n, r_end = getEnd P n, r_with = w\<rparr>])"
  by (auto simp: visitUnbound_def push_def
      split: option.splits list.splits if_splits sum.splits dest: linkSymbol_pushes)

lemma visitIdentifier_pushes:
  "visitIdentifier k P n reps g = (Inr reps', g')
   \<Longrightarrow> reps' = reps
       \<or> (\<exists>w. reps' = reps @ [\<lparr>r_start = getStart P n, r_end = getEnd P n, r_with = w\<rparr>])"
  by (auto simp: visitIdentifier_def Let_def push_def
      split: option.splits if_splits sum.splits dest: visitUnbound_pushes)

lemma visit_pushes:
  assumes "visit k P n reps g = (Inr reps', g')"
  shows "reps' = reps
       \<or> (\<exists>sp w. replacedNode P n = Some sp
            \<and> reps' = reps @ [\<lparr>r_start = getStart P sp, r_end = getEnd P sp, r_with = w\<rparr>])"
proof (cases "kind P n = Identifier")
  case True
  with assms have "visitIdentifier k P n reps g = (Inr reps', g')"
    by (simp add: visit_def)
  from visitIdentifier_pushes [OF this] True show ?thesis
    by (auto simp: replacedNode_def)
next
  case False
  with assms show ?thesis
    by (auto simp: visit_def replacedNode_def
        split: SyntaxKind.splits option.splits if_splits
        dest: transformImportSource_pushes)
qed







section \<open>One declaration, many references\<close>

lemma visit_extends:
  "visit k P n reps g = (Inr reps', g') \<Longrightarrow> set reps \<subseteq> set reps'"
  by (auto dest: visit_pushes)








section \<open>Ids of exported symbols\<close>

lemma findExport_find:
  "\<forall>x \<in> set es. declarations P x \<noteq> None
   \<Longrightarrow> findExport P s es = Inr (find (exportsSymbol P s) es)"
  by (induction es) (auto simp: exportsSymbol_def)

lemma idFor_respects:
  "idFor k P n g = (r, g') \<Longrightarrow> cacheRespectsExports P g \<Longrightarrow> cacheRespectsExports P g'"
proof (induction k arbitrary: n g r g')
  case 0
  then show ?case by simp
next
  case (Suc k)
  have rec: "\<And>fn r1 g1. idFor k P fn g = (r1, g1) \<Longrightarrow> cacheRespectsExports P g1"
    using Suc.IH Suc.prems(2) by blast
  have add: "\<And>h x. cacheRespectsExports P h \<Longrightarrow> exportName P n = None
      \<Longrightarrow> cacheRespectsExports P (h\<lparr>idCache := (idCache h)(n \<mapsto> x)\<rparr>)"
    by (auto simp: cacheRespectsExports_def)
  have exp: "\<And>e. exportEntry P n = Inr (Some e)
      \<Longrightarrow> cacheRespectsExports P (g\<lparr>idCache := (idCache g)(n \<mapsto> symbolName P e)\<rparr>)"
    using Suc.prems(2) by (auto simp: cacheRespectsExports_def exportName_def)
  have none: "exportEntry P n = Inr None \<Longrightarrow> exportName P n = None"
    by (simp add: exportName_def)
  from Suc.prems show ?case
    by (auto simp: remember_def split: sum.splits option.splits if_splits prod.splits
        dest!: rec intro!: add exp none)
qed

lemma idFor_exported:
  assumes inv: "cacheRespectsExports P g" and x: "exportName P n = Some x"
  shows "fst (idFor (Suc k) P n g) = Inr x"
proof (cases "idCache g n")
  case None
  from x obtain e where "exportEntry P n = Inr (Some e)" "x = symbolName P e"
    by (auto simp: exportName_def split: sum.splits option.splits)
  with None show ?thesis
    by (simp add: remember_def)
next
  case (Some s)
  with inv x have "s = x"
    unfolding cacheRespectsExports_def by blast
  with Some show ?thesis by simp
qed

text \<open>
  Claim C7. When the module of a node has an export list with an entry one of whose
  declarations resolves, by its name or by its rename source, to the symbol of the node,
  \<open>idFor\<close> returns the public name of the first such entry, before any fallback; that is
  the entry's name when it is the only one. This holds for the empty cache and for every
  cache whose entries were made by \<open>idFor\<close>, and the cache stays such a cache. For
  \<^verbatim>\<open>import { a as b }\<close> with \<^verbatim>\<open>export { b as c }\<close> the id of \<^verbatim>\<open>b\<close> is \<^verbatim>\<open>c\<close>.
\<close>

theorem idFor_export_name:
  assumes "cacheRespectsExports P g"
    and "getSymbolAtLocation P (getSourceFile n) = Some m"
    and "exports P m = Some es"
    and "\<forall>x \<in> set es. declarations P x \<noteq> None"
    and "e \<in> set es" and "exportsSymbol P (getSymbolAtLocation P n) e"
  shows "(\<exists>e' \<in> set es. exportsSymbol P (getSymbolAtLocation P n) e'
            \<and> find (exportsSymbol P (getSymbolAtLocation P n)) es = Some e'
            \<and> fst (idFor (Suc k) P n g) = Inr (symbolName P e'))
       \<and> ((\<forall>x \<in> set es. exportsSymbol P (getSymbolAtLocation P n) x \<longrightarrow> x = e)
            \<longrightarrow> fst (idFor (Suc k) P n g) = Inr (symbolName P e))
       \<and> cacheRespectsExports P (snd (idFor (Suc k) P n g))"
proof -
  from assms(5,6) obtain e' where f: "find (exportsSymbol P (getSymbolAtLocation P n)) es = Some e'"
    by (cases "find (exportsSymbol P (getSymbolAtLocation P n)) es") (auto simp: find_None_iff)
  then have e': "e' \<in> set es" "exportsSymbol P (getSymbolAtLocation P n) e'"
    by (auto simp: find_Some_iff)
  have "exportEntry P n = Inr (Some e')"
    using assms(2,3,4) f by (simp add: exportEntry_def findExport_find)
  then have "exportName P n = Some (symbolName P e')"
    by (simp add: exportName_def)
  with assms(1) have r: "fst (idFor (Suc k) P n g) = Inr (symbolName P e')"
    by (rule idFor_exported)
  have c: "cacheRespectsExports P (snd (idFor (Suc k) P n g))"
    using idFor_respects [of "Suc k" P n g] assms(1) by (cases "idFor (Suc k) P n g") auto
  from f e' r c show ?thesis by auto
qed

theorem idFor_export_name_witness:
  "fst (idFor (Suc 0) importsFile (''/a.ts'', [1, 0, 1, 0, 0]) noGlobals) = Inr ''c''"
proof -
  have g: "cacheRespectsExports importsFile noGlobals"
    by (simp add: cacheRespectsExports_def noGlobals_def)
  have h: "getSymbolAtLocation importsFile (getSourceFile (''/a.ts'', [1, 0, 1, 0, 0])) = Some 1"
    "exports importsFile 1 = Some [6, 7]"
    by code_simp+
  have d: "\<forall>x \<in> set [6, 7]. declarations importsFile x \<noteq> None"
    by code_simp
  have e: "(6::nat) \<in> set [6, 7]"
    "exportsSymbol importsFile (getSymbolAtLocation importsFile (''/a.ts'', [1, 0, 1, 0, 0])) 6"
    by code_simp+
  have u: "\<forall>x \<in> set [6, 7].
      exportsSymbol importsFile (getSymbolAtLocation importsFile (''/a.ts'', [1, 0, 1, 0, 0])) x
      \<longrightarrow> x = 6"
    by code_simp
  have c: "symbolName importsFile 6 = ''c''"
    by code_simp
  from idFor_export_name [OF g h d e, of 0] u c show ?thesis by simp
qed

text \<open>Every cache of a pass that starts with such a cache is such a cache.\<close>

lemma isDefinition_respects:
  "isDefinition P s n g = (r, g') \<Longrightarrow> cacheRespectsExports P g
   \<Longrightarrow> cacheRespectsExports P g'"
  by (drule isDefinition_cache) (simp add: cacheRespectsExports_def)

lemma linkSymbol_respects:
  assumes "linkSymbol k P n s ds reps g = (r, g')" and inv: "cacheRespectsExports P g"
  shows "cacheRespectsExports P g'"
proof (cases "languageProvided P s ds")
  case True
  with assms show ?thesis by (simp add: linkSymbol_def)
next
  case False
  obtain b g1 where d: "isDefinition P s n g = (b, g1)"
    by (cases "isDefinition P s n g")
  then have c: "cacheRespectsExports P g1"
    using inv by (rule isDefinition_respects)
  have i: "\<And>m r2 g2. idFor k P m g1 = (r2, g2) \<Longrightarrow> cacheRespectsExports P g2"
    using idFor_respects c by blast
  from assms(1) False d c show ?thesis
    by (auto simp: linkSymbol_def split: sum.splits bool.splits option.splits prod.splits
        dest: i)
qed

lemma visitUnbound_respects:
  "visitUnbound k P n reps g = (r, g') \<Longrightarrow> cacheRespectsExports P g
   \<Longrightarrow> cacheRespectsExports P g'"
  by (auto simp: visitUnbound_def split: option.splits list.splits if_splits sum.splits
      dest: linkSymbol_respects)

lemma visitIdentifier_respects:
  "visitIdentifier k P n reps g = (r, g') \<Longrightarrow> cacheRespectsExports P g
   \<Longrightarrow> cacheRespectsExports P g'"
  by (auto simp: visitIdentifier_def Let_def split: option.splits if_splits sum.splits
      dest: visitUnbound_respects)

lemma visit_respects:
  "visit k P n reps g = (r, g') \<Longrightarrow> cacheRespectsExports P g
   \<Longrightarrow> cacheRespectsExports P g'"
  by (auto simp: visit_def split: SyntaxKind.splits option.splits if_splits
      dest: visitIdentifier_respects)

lemma visitAll_respects:
  "visitAll (visit k P) ns reps g = (r, g') \<Longrightarrow> cacheRespectsExports P g
   \<Longrightarrow> cacheRespectsExports P g'"
proof (induction ns arbitrary: reps g)
  case Nil
  then show ?case by simp
next
  case (Cons n ns)
  obtain r1 g1 where v: "visit k P n reps g = (r1, g1)"
    by (cases "visit k P n reps g")
  then have c: "cacheRespectsExports P g1"
    using Cons.prems(2) by (rule visit_respects)
  show ?case
  proof (cases r1)
    case (Inl e)
    with Cons.prems(1) v c show ?thesis by simp
  next
    case (Inr reps1)
    with Cons.prems(1) v have "visitAll (visit k P) ns reps1 g1 = (r, g')"
      by simp
    with c show ?thesis
      using Cons.IH by blast
  qed
qed

end
